theory Spec2Isabelle
  imports Main
begin

section \<open>Values exchanged between the page and the wallet agent\<close>

text \<open>
  The connector of \<^verbatim>\<open>packages/fuel-wallet/src/FuelWalletConnector.ts\<close> talks to a wallet
  agent through \<^verbatim>\<open>window.postMessage\<close>.  Values that travel in RPC results are JavaScript
  values of JSON shape.  An object is an association list read with \<open>map_of\<close>.
\<close>

datatype json =
    JNull
  | JBool bool
  | JNum int
  | JStr string
  | JArr "json list"
  | JObj "(string \<times> json) list"

text \<open>JavaScript truthiness, as used by \<^verbatim>\<open>!x\<close>, \<^verbatim>\<open>!!x\<close> and \<^verbatim>\<open>x || y\<close>.\<close>

fun truthy :: "json \<Rightarrow> bool" where
  "truthy JNull = False"
| "truthy (JBool b) = b"
| "truthy (JNum n) = (n \<noteq> 0)"
| "truthy (JStr s) = (s \<noteq> [])"
| "truthy (JArr xs) = True"
| "truthy (JObj fs) = True"

text \<open>
  Every \<^verbatim>\<open>throw\<close> and every rejected promise is a value of \<open>error\<close>.  \<open>RequestTimeout\<close>
  is the rejection of the RPC client when the timer of a call expires, \<open>JSONRPCError\<close> an error
  reported by the agent (code and message).
\<close>

datatype error =
    Error string
  | TypeError string
  | ReferenceError string
  | RequestTimeout
  | JSONRPCError int string

text \<open>
  The state of a promise once nothing more can happen to it: fulfilled, rejected, or never
  settled.
\<close>

datatype 'a promise = Resolved 'a | Rejected error | Pending

text \<open>
  The text of a message to sign is a sequence of UTF-16 code units, so that
  \<^verbatim>\<open>String.prototype.trim\<close> can be modelled on what it really strips: the code points of
  WhiteSpace and LineTerminator of ECMAScript, all of them in the basic plane.
\<close>

type_synonym js_string = "nat list"

definition isWhiteSpace :: "nat \<Rightarrow> bool" where
  "isWhiteSpace c \<longleftrightarrow>
     c = 9 \<or> c = 10 \<or> c = 11 \<or> c = 12 \<or> c = 13 \<or> c = 32 \<or> c = 160 \<or> c = 5760 \<or>
     (8192 \<le> c \<and> c \<le> 8202) \<or> c = 8232 \<or> c = 8233 \<or> c = 8239 \<or> c = 8287 \<or>
     c = 12288 \<or> c = 65279"

definition trim :: "js_string \<Rightarrow> js_string" where
  "trim s = rev (dropWhile isWhiteSpace (rev (dropWhile isWhiteSpace s)))"

text \<open>
  \<^verbatim>\<open>HashableMessage\<close> of the fuels library is \<^verbatim>\<open>string | { personalSign: BytesLike }\<close>, and
  \<^verbatim>\<open>BytesLike\<close> is \<^verbatim>\<open>Uint8Array | string\<close>.  \<open>MessageObject None\<close> is an object without
  the field; \<open>MessageNull\<close> is the \<^verbatim>\<open>null\<close> that \<^verbatim>\<open>signMessage\<close> guards against.
\<close>

datatype BytesLike = BytesString js_string | BytesArray "nat list"

datatype HashableMessage =
    MessageString js_string
  | MessageObject "BytesLike option"
  | MessageNull

text \<open>Assets of the fuels library: an asset lists one variant per network it lives on.\<close>

record AssetNetwork =
  type :: string
  chainId :: int
  decimals :: int
  assetId :: "string option"

record Asset =
  name :: string
  symbol :: string
  icon :: string
  networks :: "AssetNetwork list"

text \<open>
  What \<^verbatim>\<open>addAssets\<close> sends for one asset:
  \<^verbatim>\<open>{ ...asset, imageUrl, decimals, assetId }\<close>.
\<close>

record AssetData = Asset +
  imageUrl :: string
  decimals :: int
  assetId :: "string option"

text \<open>
  The parameter object of each RPC method.  \<open>Empty\<close> is \<^verbatim>\<open>{}\<close>.  The transaction of
  \<open>SendTransaction\<close> and \<open>SignTransaction\<close> is the string \<^verbatim>\<open>JSON.stringify(txRequest)\<close>;
  the other arguments follow the order of the fields in the source.
\<close>

datatype params =
    Empty
  | SignMessage string HashableMessage
  | SendTransaction string string "json option" "bool option" "json option" "json option" bool
  | SignTransaction string string "json option" "bool option" "json option" "json option"
  | AddAssets "AssetData list"
  | AddAbi string json
  | GetAbi string
  | SelectNetwork json
  | AddNetwork string string
  | Version string string

text \<open>
  Request identifiers come from \<^verbatim>\<open>crypto.randomUUID()\<close>.  The \<open>n\<close>-th identifier drawn is
  represented by \<open>n\<close>: identifiers are pairwise distinct.
\<close>

type_synonym request_id = nat

record JSONRPCRequest =
  id :: request_id
  "method" :: string
  params :: params

text \<open>
  A response carries the identifier of its request and either a result or an error (spec,
  data model: \<^verbatim>\<open>{id, result}\<close> or \<^verbatim>\<open>{id, error}\<close>).
\<close>

datatype JSONRPCResponse =
    Success request_id json
  | Failure request_id int string

fun response_id :: "JSONRPCResponse \<Rightarrow> request_id" where
  "response_id (Success i v) = i"
| "response_id (Failure i c m) = i"

fun settlement :: "JSONRPCResponse \<Rightarrow> json promise" where
  "settlement (Success i v) = Resolved v"
| "settlement (Failure i c m) = Rejected (JSONRPCError c m)"

record EventData =
  event :: string
  params :: "json list"

text \<open>
  \<^verbatim>\<open>CommunicationMessage\<close> of \<^verbatim>\<open>./types\<close> is a union tagged by \<^verbatim>\<open>type\<close>; every member has a
  \<^verbatim>\<open>target\<close> and a \<^verbatim>\<open>connectorName\<close>.  \<open>OtherMessage\<close> stands for the members this connector
  does not consume (the \<^verbatim>\<open>default\<close> branch of \<^verbatim>\<open>onCommunicationMessage\<close>).
\<close>

datatype MessageTypes =
    MessageTypes_request
  | MessageTypes_response
  | MessageTypes_event
  | MessageTypes_other

datatype CommunicationMessage =
    RequestMessage (target: string) (connectorName: string) JSONRPCRequest
  | ResponseMessage (target: string) (connectorName: string) JSONRPCResponse
  | EventMessage (target: string) (connectorName: string) "EventData list"
  | OtherMessage (target: string) (connectorName: string)

fun message_type :: "CommunicationMessage \<Rightarrow> MessageTypes" where
  "message_type (RequestMessage t c r) = MessageTypes_request"
| "message_type (ResponseMessage t c r) = MessageTypes_response"
| "message_type (EventMessage t c es) = MessageTypes_event"
| "message_type (OtherMessage t c) = MessageTypes_other"

record MessageEvent =
  origin :: string
  data :: CommunicationMessage

section \<open>The host: the page, the agent and the fuels library\<close>

text \<open>
  What the agent does with a request: it never answers, or its response reaches the RPC client
  after some milliseconds.
\<close>

datatype reply = Never | After nat JSONRPCResponse

datatype ChainInfo = ChainInfo (chain_name: string)

record Provider =
  url :: string
  getChain :: "ChainInfo promise"

datatype TransactionResponse = TransactionResponse json

text \<open>
  Everything the connector finds around itself is a parameter of the model:
  \<^item> \<open>window\<close> is \<^verbatim>\<open>window.origin\<close>, or \<open>None\<close> where \<^verbatim>\<open>typeof window === 'undefined'\<close>;
  \<^item> the constants of \<^verbatim>\<open>./constants\<close> and \<^verbatim>\<open>FuelConnectorEventType\<close> of fuels, whose values
    are not part of the sources;
  \<^item> \<open>agent\<close>, the behaviour of the wallet agent;
  \<^item> the functions of the fuels library and of the platform that the connector calls, each
    returning \<open>Inl\<close> where it throws.
\<close>

record host =
  window :: "string option"
  CONNECTOR_SCRIPT :: string
  CONTENT_SCRIPT_NAME :: string
  FuelConnectorEventType :: string
  agent :: "JSONRPCRequest \<Rightarrow> reply"
  transactionRequestify :: "json \<Rightarrow> error + json"
  JSON_stringify :: "json \<Rightarrow> string"
  JSON_parse :: "json \<Rightarrow> error + json"
  deserializeTransactionResponseJson :: "json \<Rightarrow> error + TransactionResponse"
  Address_fromDynamicInput :: "json \<Rightarrow> error + string"
  new_Provider :: "string \<Rightarrow> error + Provider"

section \<open>The connector\<close>

text \<open>
  The fields of \<^verbatim>\<open>FuelWalletConnector\<close> and the effects of its methods, each in a log of its
  own:
  \<^item> \<open>listening\<close>: \<^verbatim>\<open>onMessage\<close> is registered on the window;
  \<^item> \<open>uuids\<close>: how many identifiers were drawn from \<^verbatim>\<open>crypto.randomUUID()\<close>;
  \<^item> \<open>pending\<close>: the requests of \<^verbatim>\<open>client\<close> that are in flight, each with the delay of its
    timer when one is armed;
  \<^item> \<open>probes\<close>: the pings of \<^verbatim>\<open>setupConnector\<close> that are in flight; the reaction
    \<^verbatim>\<open>.then(announce).catch(() => {})\<close> runs when one of them settles;
  \<^item> \<open>posted\<close>: the calls \<^verbatim>\<open>window.postMessage(message, origin)\<close>;
  \<^item> \<open>dispatched\<close>: the calls \<^verbatim>\<open>window.dispatchEvent(new CustomEvent(type, {detail: this}))\<close>,
    as the event type and the name of the connector in \<^verbatim>\<open>detail\<close>;
  \<^item> \<open>emitted\<close>: the calls \<^verbatim>\<open>this.emit(event, ...params)\<close>, which is how subscribers are
    reached.
  The fields \<^verbatim>\<open>events\<close> and \<^verbatim>\<open>metadata\<close> are constants that no method reads and are left
  out.
\<close>

record connector =
  name :: string
  connected :: bool
  installed :: bool
  external :: bool
  listening :: bool
  uuids :: nat
  pending :: "(request_id \<times> nat option) list"
  probes :: "request_id list"
  posted :: "(CommunicationMessage \<times> string) list"
  dispatched :: "(string \<times> string) list"
  emitted :: "(string \<times> json list) list"

definition createRequestId :: "connector \<Rightarrow> request_id \<times> connector" where
  "createRequestId st = (uuids st, st\<lparr>uuids := Suc (uuids st)\<rparr>)"

text \<open>
  \<^verbatim>\<open>window.postMessage(message, origin || window.origin)\<close>; without a window the reference
  to \<^verbatim>\<open>window\<close> throws.
\<close>

definition postMessage ::
  "host \<Rightarrow> CommunicationMessage \<Rightarrow> string option \<Rightarrow> connector \<Rightarrow> error + connector" where
  "postMessage h message orig st =
     (case window h of
        None \<Rightarrow> Inl (ReferenceError ''window is not defined'')
      | Some w \<Rightarrow>
          Inr (st\<lparr>posted := posted st @
                 [(message, case orig of None \<Rightarrow> w | Some og \<Rightarrow> if og = [] then w else og)]\<rparr>))"

fun sendRequest :: "host \<Rightarrow> JSONRPCRequest option \<Rightarrow> connector \<Rightarrow> error + connector" where
  "sendRequest h None st = Inr st"
| "sendRequest h (Some request) st =
     postMessage h (RequestMessage (CONTENT_SCRIPT_NAME h) (name st) request) None st"

definition dispatchEvent :: "host \<Rightarrow> connector \<Rightarrow> error + connector" where
  "dispatchEvent h st =
     (case window h of
        None \<Rightarrow> Inl (ReferenceError ''window is not defined'')
      | Some w \<Rightarrow> Inr (st\<lparr>dispatched := dispatched st @ [(FuelConnectorEventType h, name st)]\<rparr>))"

definition emit :: "string \<Rightarrow> json list \<Rightarrow> connector \<Rightarrow> connector" where
  "emit ev ps st = st\<lparr>emitted := emitted st @ [(ev, ps)]\<rparr>"

section \<open>The RPC client\<close>

text \<open>
  The connector instantiates the class \<^verbatim>\<open>JSONRPCClient\<close> of the package json-rpc-2.0, which
  is not part of the sources.  The client is modelled after section 4.2 of the specification:
  a call draws a fresh identifier, records a pending request (arming a timer when a timeout is
  set) and emits the request through the send function the client was built with
  (\<^verbatim>\<open>sendRequest\<close>); a response whose identifier matches a pending request removes the entry
  and resolves or rejects the promise of the call; a response with an unknown identifier is
  ignored; the expiry of a timer removes the entry and rejects with a timeout error.
\<close>

text \<open>
  Modelled from the spec: the removal of the pending request \<open>i\<close> from the table of
  \<^verbatim>\<open>JSONRPCClient\<close> (json-rpc-2.0, missing from the sources).
\<close>

definition forget :: "request_id \<Rightarrow> connector \<Rightarrow> connector" where
  "forget i st = st\<lparr>pending := filter (\<lambda>p. fst p \<noteq> i) (pending st)\<rparr>"

text \<open>
  The reaction that \<^verbatim>\<open>setupConnector\<close> attaches to its ping:
  \<^verbatim>\<open>.then(() => window.dispatchEvent(...)).catch(() => {})\<close>.
\<close>

definition setupConnector_reaction :: "host \<Rightarrow> json promise \<Rightarrow> connector \<Rightarrow> connector" where
  "setupConnector_reaction h r st =
     (case r of
        Resolved v \<Rightarrow> (case dispatchEvent h st of Inl e \<Rightarrow> st | Inr st' \<Rightarrow> st')
      | Rejected e \<Rightarrow> st
      | Pending \<Rightarrow> st)"

text \<open>
  The promise of request \<open>i\<close> settles: the reactions attached to it inside the connector
  run.  The only one is the reaction of \<^verbatim>\<open>setupConnector\<close>; the reactions of the callers of
  the connector are outside of it.
\<close>

definition settle :: "host \<Rightarrow> request_id \<Rightarrow> json promise \<Rightarrow> connector \<Rightarrow> connector" where
  "settle h i r st =
     (if i \<in> set (probes st)
      then setupConnector_reaction h r (st\<lparr>probes := removeAll i (probes st)\<rparr>)
      else st)"

text \<open>
  Modelled from the spec: \<^verbatim>\<open>client.receive(response)\<close> of \<^verbatim>\<open>JSONRPCClient\<close> (json-rpc-2.0,
  missing from the sources).  A response whose identifier matches a pending request removes
  the entry and settles the promise of the call; any other response is ignored.
\<close>

definition client_receive :: "host \<Rightarrow> JSONRPCResponse \<Rightarrow> connector \<Rightarrow> connector" where
  "client_receive h resp st =
     (case map_of (pending st) (response_id resp) of
        None \<Rightarrow> st
      | Some tmo \<Rightarrow> settle h (response_id resp) (settlement resp) (forget (response_id resp) st))"

text \<open>
  Modelled from the spec: the timer that \<^verbatim>\<open>client.timeout(t)\<close> of \<^verbatim>\<open>JSONRPCClient\<close>
  (json-rpc-2.0, missing from the sources) arms for request \<open>i\<close> expires.  The entry is
  removed and the promise is rejected with the timeout error; a request without a timer, or
  one that has settled, is not affected.
\<close>

definition client_timeout :: "host \<Rightarrow> request_id \<Rightarrow> connector \<Rightarrow> connector" where
  "client_timeout h i st =
     (case map_of (pending st) i of
        Some (Some t) \<Rightarrow> settle h i (Rejected RequestTimeout) (forget i st)
      | _ \<Rightarrow> st)"

text \<open>
  Modelled from the spec: the synchronous part of \<^verbatim>\<open>client.request(method, params)\<close> of
  \<^verbatim>\<open>JSONRPCClient\<close> (json-rpc-2.0, missing from the sources), with the timeout of
  \<^verbatim>\<open>client.timeout(t)\<close> when there is one.  It returns the request that was sent, or the
  error of a send that failed (the call is then rejected with it and nothing stays pending).
\<close>

definition client_send ::
  "host \<Rightarrow> nat option \<Rightarrow> string \<Rightarrow> params \<Rightarrow> connector \<Rightarrow> (error + JSONRPCRequest) \<times> connector" where
  "client_send h tmo m p st =
     (case createRequestId st of
        (i, st1) \<Rightarrow>
          (let request = \<lparr>id = i, method = m, params = p\<rparr>;
               st2 = st1\<lparr>pending := pending st1 @ [(i, tmo)]\<rparr>
           in case sendRequest h (Some request) st2 of
                Inl e \<Rightarrow> (Inl e, forget i st2)
              | Inr st3 \<Rightarrow> (Inr request, st3)))"

text \<open>
  Modelled from the spec: the response that settles request \<open>i\<close> of \<^verbatim>\<open>JSONRPCClient\<close>
  (json-rpc-2.0, missing from the sources), if any.  It carries the identifier of the request
  and, when a timer is armed, arrives before the timer expires.
\<close>

fun arrives :: "nat option \<Rightarrow> request_id \<Rightarrow> reply \<Rightarrow> JSONRPCResponse option" where
  "arrives tmo i Never = None"
| "arrives tmo i (After d resp) =
     (if response_id resp = i \<and> (case tmo of None \<Rightarrow> True | Some t \<Rightarrow> d < t)
      then Some resp else None)"

text \<open>
  Modelled from the spec: what the caller that awaits the promise of a request of
  \<^verbatim>\<open>JSONRPCClient\<close> (json-rpc-2.0, missing from the sources) gets, given what the agent does
  with the request.  Without a timer and without a response the promise never settles.
\<close>

definition client_await ::
  "host \<Rightarrow> nat option \<Rightarrow> JSONRPCRequest \<Rightarrow> connector \<Rightarrow> json promise \<times> connector" where
  "client_await h tmo request st =
     (case arrives tmo (id request) (agent h request) of
        Some resp \<Rightarrow> (settlement resp, client_receive h resp st)
      | None \<Rightarrow>
          (case tmo of
             None \<Rightarrow> (Pending, st)
           | Some t \<Rightarrow> (Rejected RequestTimeout, client_timeout h (id request) st)))"

text \<open>
  Modelled from the spec: \<^verbatim>\<open>client.request(method, params)\<close> of \<^verbatim>\<open>JSONRPCClient\<close>
  (json-rpc-2.0, missing from the sources), or \<^verbatim>\<open>client.timeout(t).request(method, params)\<close>
  when \<open>tmo\<close> is \<open>Some t\<close>, as seen by the caller that awaits it.
\<close>

definition client_request ::
  "host \<Rightarrow> nat option \<Rightarrow> string \<Rightarrow> params \<Rightarrow> connector \<Rightarrow> json promise \<times> connector" where
  "client_request h tmo m p st =
     (case client_send h tmo m p st of
        (Inl e, st1) \<Rightarrow> (Rejected e, st1)
      | (Inr request, st1) \<Rightarrow> client_await h tmo request st1)"

section \<open>Application communication methods\<close>

text \<open>
  \<^verbatim>\<open>setupConnector\<close> calls \<^verbatim>\<open>this.ping()\<close>, that is
  \<^verbatim>\<open>client.timeout(800).request('ping', {})\<close>, and does not await it: it returns once the
  request is sent and pending with its timer of 800 ms, and the reaction it attached runs when
  the ping settles (\<open>settle\<close>).  Its own promise is always fulfilled.
\<close>

definition setupConnector :: "host \<Rightarrow> connector \<Rightarrow> unit promise \<times> connector" where
  "setupConnector h st =
     (case window h of
        None \<Rightarrow> (Resolved (), st)
      | Some w \<Rightarrow>
          (case client_send h (Some 800) ''ping'' Empty st of
             (Inl e, st1) \<Rightarrow> (Resolved (), st1)
           | (Inr request, st1) \<Rightarrow> (Resolved (), st1\<lparr>probes := probes st1 @ [id request]\<rparr>)))"

text \<open>
  The four checks of \<^verbatim>\<open>acceptMessage\<close>, in the order of the source.  Without a window
  \<^verbatim>\<open>setupListener\<close> registers no listener and no message event ever reaches
  \<^verbatim>\<open>onMessage\<close>; the comparison with \<^verbatim>\<open>window.origin\<close> is then false.
\<close>

definition acceptMessage :: "host \<Rightarrow> connector \<Rightarrow> MessageEvent \<Rightarrow> bool" where
  "acceptMessage h st message \<longleftrightarrow>
     Some (origin message) = window h \<and>
     message_type (data message) \<noteq> MessageTypes_request \<and>
     connectorName (data message) = name st \<and>
     target (data message) = CONNECTOR_SCRIPT h"

definition setupListener :: "host \<Rightarrow> connector \<Rightarrow> connector" where
  "setupListener h st = (case window h of None \<Rightarrow> st | Some w \<Rightarrow> st\<lparr>listening := True\<rparr>)"

definition onResponse :: "host \<Rightarrow> JSONRPCResponse \<Rightarrow> connector \<Rightarrow> connector" where
  "onResponse h resp st = client_receive h resp st"

text \<open>\<^verbatim>\<open>message.events.forEach\<close>: one tuple after the other, in the order of the array.\<close>

fun onEvent :: "host \<Rightarrow> EventData list \<Rightarrow> connector \<Rightarrow> connector" where
  "onEvent h [] st = st"
| "onEvent h (eventData # rest) st =
     onEvent h rest
       (if event eventData = ''start'' then snd (setupConnector h st)
        else emit (event eventData) (EventData.params eventData) st)"

fun onCommunicationMessage :: "host \<Rightarrow> CommunicationMessage \<Rightarrow> connector \<Rightarrow> connector" where
  "onCommunicationMessage h (ResponseMessage t c resp) st = onResponse h resp st"
| "onCommunicationMessage h (EventMessage t c evs) st = onEvent h evs st"
| "onCommunicationMessage h (RequestMessage t c r) st = st"
| "onCommunicationMessage h (OtherMessage t c) st = st"

definition onMessage :: "host \<Rightarrow> MessageEvent \<Rightarrow> connector \<Rightarrow> connector" where
  "onMessage h message st =
     (if \<not> acceptMessage h st message then st
      else onCommunicationMessage h (data message) st)"

text \<open>
  The constructor: the default name, the fields as they are initialised, then
  \<^verbatim>\<open>setupListener()\<close> and \<^verbatim>\<open>setupConnector()\<close>.  \<^verbatim>\<open>setMaxListeners(100)\<close> configures the
  event emitter and changes nothing that is modelled.
\<close>

definition constructor :: "host \<Rightarrow> string option \<Rightarrow> connector" where
  "constructor h nm =
     snd (setupConnector h (setupListener h
       \<lparr>name = (case nm of None \<Rightarrow> ''Fuel Wallet'' | Some n \<Rightarrow> n),
        connected = False, installed = False, external = False, listening = False,
        uuids = 0, pending = [], probes = [], posted = [], dispatched = [], emitted = []\<rparr>))"

section \<open>Connector methods\<close>

text \<open>
  Each method is \<^verbatim>\<open>async\<close>: what it throws rejects its promise.  A method returns the state
  of its promise together with the connector after the call.
\<close>

record FuelConnectorSendTxParams =
  onBeforeSend :: "(json \<Rightarrow> json promise) option"
  skipCustomFee :: "bool option"
  provider :: "json option"
  transactionState :: "json option"
  transactionSummary :: "json option"

text \<open>
  The object that \<^verbatim>\<open>prepareTransactionRequest\<close> returns: \<^verbatim>\<open>txRequest\<close>, \<^verbatim>\<open>providerToSend\<close>,
  \<^verbatim>\<open>skipCustomFee\<close>, \<^verbatim>\<open>transactionState\<close>, \<^verbatim>\<open>transactionSummary\<close>.
\<close>

datatype prepared = Prepared json "json option" "bool option" "json option" "json option"

definition prepareTransactionRequest ::
  "host \<Rightarrow> json option \<Rightarrow> FuelConnectorSendTxParams option \<Rightarrow> prepared promise" where
  "prepareTransactionRequest h transaction ps =
     (case transaction of
        None \<Rightarrow> Rejected (Error ''Transaction is required'')
      | Some tx \<Rightarrow>
          (case transactionRequestify h tx of
             Inl e \<Rightarrow> Rejected e
           | Inr txRequest \<Rightarrow>
               (let providerToSend = Option.bind ps provider;
                    skip = Option.bind ps skipCustomFee;
                    tstate = Option.bind ps transactionState;
                    tsummary = Option.bind ps transactionSummary
                in case Option.bind ps onBeforeSend of
                     None \<Rightarrow> Resolved (Prepared txRequest providerToSend skip tstate tsummary)
                   | Some f \<Rightarrow>
                       (case f txRequest of
                          Resolved t \<Rightarrow> Resolved (Prepared t providerToSend skip tstate tsummary)
                        | Rejected e \<Rightarrow> Rejected e
                        | Pending \<Rightarrow> Pending))))"

definition ping :: "host \<Rightarrow> connector \<Rightarrow> json promise \<times> connector" where
  "ping h st = client_request h (Some 800) ''ping'' Empty st"

definition isConnected :: "host \<Rightarrow> connector \<Rightarrow> json promise \<times> connector" where
  "isConnected h st =
     (case client_request h None ''isConnected'' Empty st of
        (Rejected e, st1) \<Rightarrow> (Resolved (JBool False), st1)
      | (Resolved v, st1) \<Rightarrow> (Resolved v, st1)
      | (Pending, st1) \<Rightarrow> (Pending, st1))"

definition connect :: "host \<Rightarrow> connector \<Rightarrow> json promise \<times> connector" where
  "connect h st = client_request h None ''connect'' Empty st"

definition disconnect :: "host \<Rightarrow> connector \<Rightarrow> json promise \<times> connector" where
  "disconnect h st = client_request h None ''disconnect'' Empty st"

definition accounts :: "host \<Rightarrow> connector \<Rightarrow> json promise \<times> connector" where
  "accounts h st = client_request h None ''accounts'' Empty st"

definition currentAccount :: "host \<Rightarrow> connector \<Rightarrow> json promise \<times> connector" where
  "currentAccount h st =
     (case client_request h None ''currentAccount'' Empty st of
        (Resolved account, st1) \<Rightarrow>
          (if \<not> truthy account then (Resolved JNull, st1)
           else case Address_fromDynamicInput h account of
                  Inl e \<Rightarrow> (Rejected e, st1)
                | Inr a \<Rightarrow> (Resolved (JStr a), st1))
      | (Rejected e, st1) \<Rightarrow> (Rejected e, st1)
      | (Pending, st1) \<Rightarrow> (Pending, st1))"

text \<open>\<^verbatim>\<open>!message.personalSign\<close>: the field is missing, or it is the empty string.\<close>

fun personalSign_falsy :: "BytesLike option \<Rightarrow> bool" where
  "personalSign_falsy None = True"
| "personalSign_falsy (Some (BytesString s)) = (s = [])"
| "personalSign_falsy (Some (BytesArray b)) = False"

definition signMessage ::
  "host \<Rightarrow> string \<Rightarrow> HashableMessage \<Rightarrow> connector \<Rightarrow> json promise \<times> connector" where
  "signMessage h address message st =
     (if (case message of MessageString s \<Rightarrow> trim s = [] | _ \<Rightarrow> False)
      then (Rejected (Error ''Message is required''), st)
      else if (case message of MessageObject ps \<Rightarrow> personalSign_falsy ps | _ \<Rightarrow> False)
      then (Rejected (Error ''Message is required''), st)
      else client_request h None ''signMessage'' (SignMessage address message) st)"

text \<open>
  What \<^verbatim>\<open>sendTransaction\<close> returns: a \<^verbatim>\<open>TransactionResponse\<close> rebuilt by
  \<^verbatim>\<open>deserializeTransactionResponseJson\<close>, or a value of the RPC result as it came.
\<close>

datatype sent = Response TransactionResponse | Plain json

text \<open>
  The end of \<^verbatim>\<open>sendTransaction\<close>, from the RPC result \<^verbatim>\<open>resp\<close>.  \<^verbatim>\<open>typeof null\<close> is
  \<^verbatim>\<open>'object'\<close> and the \<^verbatim>\<open>in\<close> operator throws on \<^verbatim>\<open>null\<close>; an array is an object without
  the two fields; a field of a string, number or boolean is \<^verbatim>\<open>undefined\<close>.
\<close>

definition sendTransaction_return :: "host \<Rightarrow> json \<Rightarrow> sent promise" where
  "sendTransaction_return h resp =
     (case resp of
        JNull \<Rightarrow> Rejected (TypeError ''Cannot use in operator to search for id in null'')
      | JObj fs \<Rightarrow>
          (if map_of fs ''id'' \<noteq> None \<and> map_of fs ''providerCache'' \<noteq> None
           then (case deserializeTransactionResponseJson h resp of
                   Inl e \<Rightarrow> Rejected e
                 | Inr r \<Rightarrow> Resolved (Response r))
           else (case map_of fs ''id'' of
                   None \<Rightarrow> Resolved (Plain resp)
                 | Some v \<Rightarrow> if truthy v then Resolved (Plain v) else Resolved (Plain resp)))
      | _ \<Rightarrow> Resolved (Plain resp))"

definition sendTransaction ::
  "host \<Rightarrow> string \<Rightarrow> json option \<Rightarrow> FuelConnectorSendTxParams option \<Rightarrow> connector \<Rightarrow>
   sent promise \<times> connector" where
  "sendTransaction h address transaction ps st =
     (case prepareTransactionRequest h transaction ps of
        Rejected e \<Rightarrow> (Rejected e, st)
      | Pending \<Rightarrow> (Pending, st)
      | Resolved (Prepared txRequest providerToSend skip tstate tsummary) \<Rightarrow>
          (case client_request h None ''sendTransaction''
                  (SendTransaction address (JSON_stringify h txRequest) providerToSend skip
                     tstate tsummary True) st of
             (Resolved resp, st1) \<Rightarrow> (sendTransaction_return h resp, st1)
           | (Rejected e, st1) \<Rightarrow> (Rejected e, st1)
           | (Pending, st1) \<Rightarrow> (Pending, st1)))"

definition signTransaction ::
  "host \<Rightarrow> string \<Rightarrow> json option \<Rightarrow> FuelConnectorSendTxParams option \<Rightarrow> connector \<Rightarrow>
   json promise \<times> connector" where
  "signTransaction h address transaction ps st =
     (case prepareTransactionRequest h transaction ps of
        Rejected e \<Rightarrow> (Rejected e, st)
      | Pending \<Rightarrow> (Pending, st)
      | Resolved (Prepared txRequest providerToSend skip tstate tsummary) \<Rightarrow>
          (case client_request h None ''signTransaction''
                  (SignTransaction address (JSON_stringify h txRequest) providerToSend skip
                     tstate tsummary) st of
             (Resolved txRequestSerialized, st1) \<Rightarrow>
               (case JSON_parse h txRequestSerialized of
                  Inl e \<Rightarrow> (Rejected e, st1)
                | Inr parsed \<Rightarrow>
                    (case transactionRequestify h parsed of
                       Inl e \<Rightarrow> (Rejected e, st1)
                     | Inr txRequestSigned \<Rightarrow> (Resolved txRequestSigned, st1)))
           | (Rejected e, st1) \<Rightarrow> (Rejected e, st1)
           | (Pending, st1) \<Rightarrow> (Pending, st1)))"

definition assets :: "host \<Rightarrow> connector \<Rightarrow> json promise \<times> connector" where
  "assets h st = client_request h None ''assets'' Empty st"

text \<open>
  The callback of \<^verbatim>\<open>assets.map\<close> in \<^verbatim>\<open>addAssets\<close>:
  \<^verbatim>\<open>asset.networks.find((n) => n.type === 'fuel')\<close> is the first fuel variant, and the
  callback throws when there is none.
\<close>

definition assetData :: "Asset \<Rightarrow> error + AssetData" where
  "assetData asset =
     (case find (\<lambda>n. type n = ''fuel'') (networks asset) of
        None \<Rightarrow> Inl (Error ''Asset for Fuel Network not found!'')
      | Some fuelNetworkAsset \<Rightarrow>
          Inr \<lparr>Asset.name = Asset.name asset, symbol = symbol asset, icon = icon asset,
               networks = networks asset, imageUrl = icon asset,
               decimals = AssetNetwork.decimals fuelNetworkAsset,
               assetId = AssetNetwork.assetId fuelNetworkAsset\<rparr>)"

text \<open>\<^verbatim>\<open>Array.prototype.map\<close> with a callback that may throw: the first throw ends the loop.\<close>

fun map_throwing :: "('a \<Rightarrow> error + 'b) \<Rightarrow> 'a list \<Rightarrow> error + 'b list" where
  "map_throwing f [] = Inr []"
| "map_throwing f (x # xs) =
     (case f x of
        Inl e \<Rightarrow> Inl e
      | Inr y \<Rightarrow> (case map_throwing f xs of Inl e \<Rightarrow> Inl e | Inr ys \<Rightarrow> Inr (y # ys)))"

definition addAssets :: "host \<Rightarrow> Asset list \<Rightarrow> connector \<Rightarrow> json promise \<times> connector" where
  "addAssets h as st =
     (case map_throwing assetData as of
        Inl e \<Rightarrow> (Rejected e, st)
      | Inr assetsData \<Rightarrow> client_request h None ''addAssets'' (AddAssets assetsData) st)"

definition addAsset :: "host \<Rightarrow> Asset \<Rightarrow> connector \<Rightarrow> json promise \<times> connector" where
  "addAsset h asset st = addAssets h [asset] st"

definition addABI :: "host \<Rightarrow> string \<Rightarrow> json \<Rightarrow> connector \<Rightarrow> json promise \<times> connector" where
  "addABI h contractId abi st = client_request h None ''addAbi'' (AddAbi contractId abi) st"

definition getABI :: "host \<Rightarrow> string \<Rightarrow> connector \<Rightarrow> json promise \<times> connector" where
  "getABI h contractId st = client_request h None ''getAbi'' (GetAbi contractId) st"

definition hasABI :: "host \<Rightarrow> string \<Rightarrow> connector \<Rightarrow> json promise \<times> connector" where
  "hasABI h contractId st =
     (case getABI h contractId st of
        (Resolved abi, st1) \<Rightarrow> (Resolved (JBool (truthy abi)), st1)
      | (Rejected e, st1) \<Rightarrow> (Rejected e, st1)
      | (Pending, st1) \<Rightarrow> (Pending, st1))"

definition currentNetwork :: "host \<Rightarrow> connector \<Rightarrow> json promise \<times> connector" where
  "currentNetwork h st = client_request h None ''network'' Empty st"

definition selectNetwork :: "host \<Rightarrow> json \<Rightarrow> connector \<Rightarrow> json promise \<times> connector" where
  "selectNetwork h network st =
     client_request h None ''selectNetwork'' (SelectNetwork network) st"

definition networks :: "host \<Rightarrow> connector \<Rightarrow> json promise \<times> connector" where
  "networks h st = client_request h None ''networks'' Empty st"

text \<open>
  \<^verbatim>\<open>addNetwork\<close>: the provider is built and \<^verbatim>\<open>await provider.getChain()\<close> is evaluated while
  the argument of \<^verbatim>\<open>client.request\<close> is built, hence before the call.
\<close>

definition addNetwork :: "host \<Rightarrow> string \<Rightarrow> connector \<Rightarrow> json promise \<times> connector" where
  "addNetwork h networkUrl st =
     (case new_Provider h networkUrl of
        Inl e \<Rightarrow> (Rejected e, st)
      | Inr p \<Rightarrow>
          (case getChain p of
             Rejected e \<Rightarrow> (Rejected e, st)
           | Pending \<Rightarrow> (Pending, st)
           | Resolved chain \<Rightarrow>
               client_request h None ''addNetwork'' (AddNetwork (url p) (chain_name chain)) st))"

definition version :: "host \<Rightarrow> connector \<Rightarrow> json promise \<times> connector" where
  "version h st = client_request h None ''version'' (Version ''0.0.0'' ''0.0.0'') st"

section \<open>Operations of the connector\<close>

text \<open>
  Everything that can happen to a connector after its construction: a message event reaches
  the listener, the timer of a request expires, or one of the methods is called.
\<close>

datatype operation =
    Run_setupListener
  | Run_setupConnector
  | Run_onMessage MessageEvent
  | Timer_expires request_id
  | Call_ping
  | Call_isConnected
  | Call_connect
  | Call_disconnect
  | Call_accounts
  | Call_currentAccount
  | Call_signMessage string HashableMessage
  | Call_sendTransaction string "json option" "FuelConnectorSendTxParams option"
  | Call_signTransaction string "json option" "FuelConnectorSendTxParams option"
  | Call_assets
  | Call_addAsset Asset
  | Call_addAssets "Asset list"
  | Call_addABI string json
  | Call_getABI string
  | Call_hasABI string
  | Call_currentNetwork
  | Call_selectNetwork json
  | Call_networks
  | Call_addNetwork string
  | Call_version

fun perform :: "host \<Rightarrow> operation \<Rightarrow> connector \<Rightarrow> connector" where
  "perform h Run_setupListener st = setupListener h st"
| "perform h Run_setupConnector st = snd (setupConnector h st)"
| "perform h (Run_onMessage message) st = onMessage h message st"
| "perform h (Timer_expires i) st = client_timeout h i st"
| "perform h Call_ping st = snd (ping h st)"
| "perform h Call_isConnected st = snd (isConnected h st)"
| "perform h Call_connect st = snd (connect h st)"
| "perform h Call_disconnect st = snd (disconnect h st)"
| "perform h Call_accounts st = snd (accounts h st)"
| "perform h Call_currentAccount st = snd (currentAccount h st)"
| "perform h (Call_signMessage address message) st = snd (signMessage h address message st)"
| "perform h (Call_sendTransaction address transaction ps) st =
     snd (sendTransaction h address transaction ps st)"
| "perform h (Call_signTransaction address transaction ps) st =
     snd (signTransaction h address transaction ps st)"
| "perform h Call_assets st = snd (assets h st)"
| "perform h (Call_addAsset asset) st = snd (addAsset h asset st)"
| "perform h (Call_addAssets as) st = snd (addAssets h as st)"
| "perform h (Call_addABI contractId abi) st = snd (addABI h contractId abi st)"
| "perform h (Call_getABI contractId) st = snd (getABI h contractId st)"
| "perform h (Call_hasABI contractId) st = snd (hasABI h contractId st)"
| "perform h Call_currentNetwork st = snd (currentNetwork h st)"
| "perform h (Call_selectNetwork network) st = snd (selectNetwork h network st)"
| "perform h Call_networks st = snd (networks h st)"
| "perform h (Call_addNetwork networkUrl) st = snd (addNetwork h networkUrl st)"
| "perform h Call_version st = snd (version h st)"



section \<open>Example hosts, agents and inputs\<close>

text \<open>
  A page at \<^verbatim>\<open>https://app.fuel.network\<close> with a given agent and sample values for the
  constants.  The agents: one that never answers, one that answers every request with a given
  result after 5 ms, one that reports an error after 5 ms, and one whose answer takes 900 ms.
\<close>

definition example_host :: "(JSONRPCRequest \<Rightarrow> reply) \<Rightarrow> host" where
  "example_host a =
     \<lparr>window = Some ''https://app.fuel.network'',
      CONNECTOR_SCRIPT = ''FuelConnectorScript'',
      CONTENT_SCRIPT_NAME = ''FuelContentScript'',
      FuelConnectorEventType = ''FuelConnector'',
      agent = a,
      transactionRequestify = Inr,
      JSON_stringify = (\<lambda>j. ''{}''),
      JSON_parse = Inr,
      deserializeTransactionResponseJson = (\<lambda>j. Inr (TransactionResponse j)),
      Address_fromDynamicInput = (\<lambda>j. case j of JStr s \<Rightarrow> Inr s | _ \<Rightarrow> Inl (Error ''Unknown address format'')),
      new_Provider = (\<lambda>u. Inr \<lparr>url = u, getChain = Resolved (ChainInfo ''Fuel Sepolia Testnet'')\<rparr>)\<rparr>"

definition silent :: "JSONRPCRequest \<Rightarrow> reply" where
  "silent r = Never"

definition answering :: "json \<Rightarrow> JSONRPCRequest \<Rightarrow> reply" where
  "answering v r = After 5 (Success (id r) v)"

definition refusing :: "JSONRPCRequest \<Rightarrow> reply" where
  "refusing r = After 5 (Failure (id r) 0 ''Connection not found'')"

definition idle :: connector where
  "idle = \<lparr>name = ''Fuel Wallet'', connected = False, installed = False, external = False,
           listening = True, uuids = 0, pending = [], probes = [], posted = [],
           dispatched = [], emitted = []\<rparr>"

definition late :: "json \<Rightarrow> JSONRPCRequest \<Rightarrow> reply" where
  "late v r = After 900 (Success (id r) v)"

definition fuel_asset :: Asset where
  "fuel_asset =
     \<lparr>Asset.name = ''Ethereum'', symbol = ''ETH'', icon = ''eth.svg'',
      networks =
        [\<lparr>type = ''ethereum'', chainId = 11155111, decimals = 18, assetId = None\<rparr>,
         \<lparr>type = ''fuel'', chainId = 0, decimals = 9, assetId = Some ''0xf8f8b628''\<rparr>]\<rparr>"

definition foreign_asset :: Asset where
  "foreign_asset =
     \<lparr>Asset.name = ''Dai'', symbol = ''DAI'', icon = ''dai.svg'',
      networks =
        [\<lparr>type = ''ethereum'', chainId = 1, decimals = 18, assetId = None\<rparr>]\<rparr>"

text \<open>
  The page with an agent that never answers and a given \<^verbatim>\<open>Provider\<close> constructor, and the
  same host without a window (the connector built on a server).
\<close>

definition provider_host :: "(string \<Rightarrow> error + Provider) \<Rightarrow> host" where
  "provider_host f = (example_host silent)\<lparr>new_Provider := f\<rparr>"


lemmas example_defs =
  example_host_def silent_def answering_def refusing_def idle_def

lemmas run_defs =
  client_request_def client_send_def createRequestId_def postMessage_def client_await_def
  client_receive_def client_timeout_def settle_def forget_def setupConnector_reaction_def
  dispatchEvent_def Let_def

section \<open>What a request does to the connector\<close>

text \<open>
  A request touches the identifier supply, the pending table and, on a page, the log of posted
  messages; the name of the connector and the emitted events are left alone.
\<close>

lemma dispatchEvent_fields:
  "dispatchEvent h st = Inr st' \<Longrightarrow>
     name st' = name st \<and> posted st' = posted st \<and> emitted st' = emitted st \<and>
     uuids st' = uuids st \<and> pending st' = pending st \<and> probes st' = probes st"
  by (auto simp: dispatchEvent_def split: option.splits)

lemma reaction_fields:
  "name (setupConnector_reaction h r st) = name st \<and>
   posted (setupConnector_reaction h r st) = posted st \<and>
   emitted (setupConnector_reaction h r st) = emitted st \<and>
   uuids (setupConnector_reaction h r st) = uuids st \<and>
   pending (setupConnector_reaction h r st) = pending st"
  by (auto simp: setupConnector_reaction_def dest: dispatchEvent_fields split: promise.splits sum.splits)

lemma settle_fields:
  "name (settle h i r st) = name st \<and>
   posted (settle h i r st) = posted st \<and>
   emitted (settle h i r st) = emitted st \<and>
   uuids (settle h i r st) = uuids st \<and>
   pending (settle h i r st) = pending st"
  by (simp add: settle_def reaction_fields)

lemma client_receive_fields:
  "name (client_receive h resp st) = name st \<and>
   posted (client_receive h resp st) = posted st \<and>
   emitted (client_receive h resp st) = emitted st \<and>
   uuids (client_receive h resp st) = uuids st"
  by (simp add: client_receive_def settle_fields forget_def split: option.splits)

lemma client_timeout_fields:
  "name (client_timeout h i st) = name st \<and>
   posted (client_timeout h i st) = posted st \<and>
   emitted (client_timeout h i st) = emitted st \<and>
   uuids (client_timeout h i st) = uuids st"
  by (simp add: client_timeout_def settle_fields forget_def split: option.splits)

lemma client_await_fields:
  "name (snd (client_await h tmo r st)) = name st \<and>
   posted (snd (client_await h tmo r st)) = posted st \<and>
   emitted (snd (client_await h tmo r st)) = emitted st \<and>
   uuids (snd (client_await h tmo r st)) = uuids st"
  by (simp add: client_await_def client_receive_fields client_timeout_fields split: option.splits)

lemma client_send_page:
  "window h = Some w \<Longrightarrow>
   client_send h tmo m p st =
     (Inr \<lparr>id = uuids st, method = m, params = p\<rparr>,
      st\<lparr>uuids := Suc (uuids st), pending := pending st @ [(uuids st, tmo)],
         posted := posted st @
           [(RequestMessage (CONTENT_SCRIPT_NAME h) (name st)
               \<lparr>id = uuids st, method = m, params = p\<rparr>, w)]\<rparr>)"
  by (simp add: client_send_def createRequestId_def postMessage_def Let_def)

lemma client_send_nowindow:
  "window h = None \<Longrightarrow>
   client_send h tmo m p st =
     (Inl (ReferenceError ''window is not defined''),
      st\<lparr>uuids := Suc (uuids st), pending := filter (\<lambda>p. fst p \<noteq> uuids st) (pending st)\<rparr>)"
  by (simp add: client_send_def createRequestId_def postMessage_def forget_def Let_def)

lemma client_request_fields:
  "name (snd (client_request h tmo m p st)) = name st \<and>
   emitted (snd (client_request h tmo m p st)) = emitted st \<and>
   uuids (snd (client_request h tmo m p st)) = Suc (uuids st)"
  by (cases "window h") (simp_all add: client_request_def client_send_page client_send_nowindow client_await_fields)

lemma client_request_posted:
  "window h = Some w \<Longrightarrow>
   posted (snd (client_request h tmo m p st)) = posted st @
           [(RequestMessage (CONTENT_SCRIPT_NAME h) (name st)
               \<lparr>id = uuids st, method = m, params = p\<rparr>, w)]"
  by (simp add: client_request_def client_send_page client_await_fields)

lemma client_request_outcome:
  "window h = Some w \<Longrightarrow>
   fst (client_request h tmo m p st) =
     (case arrives tmo (uuids st) (agent h \<lparr>id = uuids st, method = m, params = p\<rparr>) of
        Some resp \<Rightarrow> settlement resp
      | None \<Rightarrow> (case tmo of None \<Rightarrow> Pending | Some t \<Rightarrow> Rejected RequestTimeout))"
  by (simp add: client_request_def client_send_page client_await_def split: option.splits)

lemma client_request_name:
  "client_request h tmo m p st = (r, st1) \<Longrightarrow> name st1 = name st"
  by (metis client_request_fields snd_conv)

section \<open>The readiness handshake and the event notifications\<close>

lemma setupConnector_page:
  "window h = Some w \<Longrightarrow>
   setupConnector h st =
     (Resolved (),
      st\<lparr>uuids := Suc (uuids st), pending := pending st @ [(uuids st, Some 800)],
         posted := posted st @
           [(RequestMessage (CONTENT_SCRIPT_NAME h) (name st)
               \<lparr>id = uuids st, method = ''ping'', params = Empty\<rparr>, w)],
         probes := probes st @ [uuids st]\<rparr>)"
  by (simp add: setupConnector_def client_send_page)

lemma setupConnector_nowindow:
  "window h = None \<Longrightarrow> setupConnector h st = (Resolved (), st)"
  by (simp add: setupConnector_def)

lemma setupConnector_fields:
  "name (snd (setupConnector h st)) = name st \<and>
   emitted (snd (setupConnector h st)) = emitted st \<and>
   dispatched (snd (setupConnector h st)) = dispatched st"
  by (cases "window h") (simp_all add: setupConnector_page setupConnector_nowindow)


lemma onEvent_name: "name (onEvent h evs st) = name st"
  by (induction evs arbitrary: st) (simp_all add: setupConnector_fields emit_def)


lemma onEvent_uuids_page:
  "window h = Some w \<Longrightarrow>
   uuids (onEvent h evs st) = uuids st + length (filter (\<lambda>e. event e = ''start'') evs)"
  by (induction evs arbitrary: st) (simp_all add: setupConnector_page emit_def)





section \<open>Validation of the arguments\<close>

lemma dropWhile_all_iff: "(\<forall>c\<in>set (dropWhile P s). P c) \<longleftrightarrow> (\<forall>c\<in>set s. P c)"
  by (induction s) auto

lemma trim_empty_iff: "trim s = [] \<longleftrightarrow> (\<forall>c\<in>set s. isWhiteSpace c)"
proof -
  have "trim s = [] \<longleftrightarrow> (\<forall>c\<in>set (rev (dropWhile isWhiteSpace s)). isWhiteSpace c)"
    unfolding trim_def by (simp only: rev_is_Nil_conv dropWhile_eq_Nil_conv)
  also have "\<dots> \<longleftrightarrow> (\<forall>c\<in>set s. isWhiteSpace c)"
    by (simp only: set_rev dropWhile_all_iff)
  finally show ?thesis .
qed






section \<open>The name of the connector\<close>

lemma onMessage_name: "name (onMessage h message st) = name st"
  by (cases "data message")
     (simp_all add: onMessage_def onResponse_def client_receive_fields onEvent_name)

lemma perform_name: "name (perform h op st) = name st"
proof (cases op)
  case (Call_sendTransaction address transaction ps)
  then show ?thesis
    by (auto simp: sendTransaction_def dest: client_request_name
        split: promise.splits prepared.splits prod.splits)
next
  case (Call_signTransaction address transaction ps)
  then show ?thesis
    by (auto simp: signTransaction_def dest: client_request_name
        split: promise.splits prepared.splits prod.splits sum.splits)
next
  case Call_currentAccount
  then show ?thesis
    by (auto simp: currentAccount_def dest: client_request_name
        split: promise.splits prod.splits sum.splits)
next
  case Call_isConnected
  then show ?thesis
    by (auto simp: isConnected_def dest: client_request_name split: promise.splits prod.splits)
next
  case (Call_hasABI contractId)
  then show ?thesis
    by (auto simp: hasABI_def getABI_def dest: client_request_name
        split: promise.splits prod.splits)
next
  case (Call_addNetwork networkUrl)
  then show ?thesis
    by (simp add: addNetwork_def client_request_fields split: sum.splits promise.splits)
next
  case (Call_addAssets as)
  then show ?thesis
    by (simp add: addAssets_def client_request_fields split: sum.splits)
next
  case (Call_addAsset asset)
  then show ?thesis
    by (simp add: addAsset_def addAssets_def client_request_fields split: sum.splits)
next
  case (Call_signMessage address message)
  then show ?thesis
    by (simp add: signMessage_def client_request_fields)
next
  case Run_setupListener
  then show ?thesis
    by (simp add: setupListener_def split: option.splits)
qed (simp_all add: setupConnector_fields onMessage_name client_timeout_fields
      client_request_fields ping_def connect_def disconnect_def accounts_def assets_def
      addABI_def getABI_def currentNetwork_def selectNetwork_def networks_def version_def)

lemma perform_all_name: "name (foldl (\<lambda>s op. perform h op s) st ops) = name st"
  by (induction ops arbitrary: st) (simp_all add: perform_name)

section \<open>Connectors reached from the constructor\<close>

text \<open>
  A method call leaves the connector as it was or is one request of the RPC client; the pings
  in flight stay older than the identifier supply; and an operation announces the connector
  only when it delivers the result of such a ping.
\<close>

lemma snd_promise_case:
  "snd (case x of (Resolved v, s) \<Rightarrow> (f v s, s) | (Rejected e, s) \<Rightarrow> (g e s, s)
         | (Pending, s) \<Rightarrow> (k s, s)) = snd x"
  by (cases x) (auto split: promise.splits)





















section \<open>The claims of the specification\<close>

subsection \<open>C1: the acceptance predicate\<close>

text \<open>
  C1.  For every inbound message event, \<^verbatim>\<open>onMessage\<close> hands the message to
  \<^verbatim>\<open>onCommunicationMessage\<close> (the dispatch of responses and events) exactly when the four
  checks hold: the origin of the event is the origin of the page, the type of the message is
  not \<^verbatim>\<open>request\<close>, its \<^verbatim>\<open>connectorName\<close> is the name of the connector, and its target is
  \<^verbatim>\<open>CONNECTOR_SCRIPT\<close>.  A message that fails a check leaves the connector as it was; there
  is no error.
\<close>

theorem onMessage_accepts_iff:
  "onMessage h message st =
     (if Some (origin message) = window h \<and>
         message_type (data message) \<noteq> MessageTypes_request \<and>
         connectorName (data message) = name st \<and>
         target (data message) = CONNECTOR_SCRIPT h
      then onCommunicationMessage h (data message) st
      else st)"
  by (simp add: onMessage_def acceptMessage_def)

theorem onMessage_accepts_iff_witness:
  "onMessage (example_host silent)
      \<lparr>origin = ''https://app.fuel.network'',
       data = EventMessage ''FuelConnectorScript'' ''Fuel Wallet''
                [\<lparr>event = ''accounts'', params = [JArr []]\<rparr>]\<rparr> idle
     = idle\<lparr>emitted := [(''accounts'', [JArr []])]\<rparr> \<and>
   onMessage (example_host silent)
      \<lparr>origin = ''https://evil.example'',
       data = EventMessage ''FuelConnectorScript'' ''Fuel Wallet''
                [\<lparr>event = ''accounts'', params = [JArr []]\<rparr>]\<rparr> idle
     = idle"
  using onMessage_accepts_iff [of "example_host silent"
      "\<lparr>origin = ''https://app.fuel.network'',
       data = EventMessage ''FuelConnectorScript'' ''Fuel Wallet''
                [\<lparr>event = ''accounts'', params = [JArr []]\<rparr>]\<rparr>" idle]
    onMessage_accepts_iff [of "example_host silent"
      "\<lparr>origin = ''https://evil.example'',
       data = EventMessage ''FuelConnectorScript'' ''Fuel Wallet''
                [\<lparr>event = ''accounts'', params = [JArr []]\<rparr>]\<rparr>" idle]
  by (simp add: example_host_def idle_def emit_def)

subsection \<open>C2: the presence probe and the connectivity probe\<close>

text \<open>
  C2, as amended.  On a page, \<^verbatim>\<open>ping\<close> runs its request with a timer of 800 ms and every
  failure of the request is the rejection of \<^verbatim>\<open>ping\<close>: the timeout error when the agent
  never answers or answers after 800 ms or more, the error of the agent when it reports one
  in time; an answer in time is the result.  \<^verbatim>\<open>isConnected\<close> never rejects: when the agent
  reports an error it resolves to \<^verbatim>\<open>false\<close>, and when the agent answers with a result it
  resolves to that result.
\<close>

theorem probes_settle_failures:
  "(\<forall>e. fst (isConnected h st) \<noteq> Rejected e) \<and>
   (\<forall>w. window h = Some w \<longrightarrow>
      (agent h \<lparr>id = uuids st, method = ''ping'', params = Empty\<rparr> = Never \<longrightarrow>
         fst (ping h st) = Rejected RequestTimeout) \<and>
      (\<forall>d resp. agent h \<lparr>id = uuids st, method = ''ping'', params = Empty\<rparr> = After d resp \<and>
           800 \<le> d \<longrightarrow>
         fst (ping h st) = Rejected RequestTimeout) \<and>
      (\<forall>d c m. agent h \<lparr>id = uuids st, method = ''ping'', params = Empty\<rparr> =
            After d (Failure (uuids st) c m) \<and> d < 800 \<longrightarrow>
         fst (ping h st) = Rejected (JSONRPCError c m)) \<and>
      (\<forall>d v. agent h \<lparr>id = uuids st, method = ''ping'', params = Empty\<rparr> =
            After d (Success (uuids st) v) \<and> d < 800 \<longrightarrow>
         fst (ping h st) = Resolved v) \<and>
      (\<forall>d c m. agent h \<lparr>id = uuids st, method = ''isConnected'', params = Empty\<rparr> =
            After d (Failure (uuids st) c m) \<longrightarrow>
         fst (isConnected h st) = Resolved (JBool False)) \<and>
      (\<forall>d v. agent h \<lparr>id = uuids st, method = ''isConnected'', params = Empty\<rparr> =
            After d (Success (uuids st) v) \<longrightarrow>
         fst (isConnected h st) = Resolved v))"
proof -
  have isc: "fst (isConnected h st) =
      (case fst (client_request h None ''isConnected'' Empty st) of
         Rejected e \<Rightarrow> Resolved (JBool False)
       | Resolved v \<Rightarrow> Resolved v
       | Pending \<Rightarrow> Pending)"
    by (simp add: isConnected_def split: prod.splits promise.splits)
  have never: "\<forall>e. fst (isConnected h st) \<noteq> Rejected e"
    by (simp add: isc split: promise.splits)
  show ?thesis
    using never
    by (auto simp: ping_def isc client_request_outcome split: promise.splits option.splits)
qed

theorem probes_settle_failures_witness:
  "fst (ping (example_host silent) idle) = Rejected RequestTimeout \<and>
   fst (ping (example_host (late (JBool True))) idle) = Rejected RequestTimeout \<and>
   fst (ping (example_host refusing) idle) = Rejected (JSONRPCError 0 ''Connection not found'') \<and>
   fst (ping (example_host (answering (JBool True))) idle) = Resolved (JBool True) \<and>
   fst (isConnected (example_host refusing) idle) = Resolved (JBool False) \<and>
   fst (isConnected (example_host (answering (JBool True))) idle) = Resolved (JBool True)"
  using probes_settle_failures [of "example_host silent" idle]
    probes_settle_failures [of "example_host (late (JBool True))" idle]
    probes_settle_failures [of "example_host refusing" idle]
    probes_settle_failures [of "example_host (answering (JBool True))" idle]
  by (simp add: example_defs late_def)

text \<open>
  The claim as it was stated has one probe that arms the 800 ms timer and resolves to
  \<^verbatim>\<open>false\<close> on every failure.  With an agent that never answers, \<^verbatim>\<open>ping\<close> is rejected
  with the timeout error, and \<^verbatim>\<open>isConnected\<close>, which arms no timer, never settles.
\<close>

theorem probes_counterexample:
  "fst (ping (example_host silent) idle) = Rejected RequestTimeout \<and>
   fst (ping (example_host silent) idle) \<noteq> Resolved (JBool False) \<and>
   fst (isConnected (example_host silent) idle) = Pending \<and>
   fst (isConnected (example_host silent) idle) \<noteq> Resolved (JBool False)"
  by (simp add: ping_def isConnected_def client_request_def client_send_def createRequestId_def
      postMessage_def client_await_def client_timeout_def settle_def forget_def
      example_host_def silent_def idle_def Let_def)

subsection \<open>C3: the result of sendTransaction\<close>

text \<open>
  C3, as amended.  When the preparation of the transaction succeeds and the RPC call resolves
  with \<^verbatim>\<open>resp\<close>: if \<^verbatim>\<open>resp\<close> is an object with both an \<^verbatim>\<open>id\<close> and a \<^verbatim>\<open>providerCache\<close>
  field, \<^verbatim>\<open>sendTransaction\<close> returns what \<^verbatim>\<open>deserializeTransactionResponseJson(resp)\<close>
  rebuilds; if \<^verbatim>\<open>resp\<close> is a string, it is returned unchanged; if \<^verbatim>\<open>resp\<close> is an object
  with a truthy \<^verbatim>\<open>id\<close> and no \<^verbatim>\<open>providerCache\<close>, the value of \<^verbatim>\<open>id\<close> is returned.
\<close>

theorem sendTransaction_result_shape:
  assumes "prepareTransactionRequest h transaction ps = Resolved (Prepared txRequest pv sk ts tsum)"
    and "client_request h None ''sendTransaction''
           (SendTransaction address (JSON_stringify h txRequest) pv sk ts tsum True) st =
         (Resolved resp, st1)"
  shows
    "(\<forall>fs. resp = JObj fs \<and> map_of fs ''id'' \<noteq> None \<and> map_of fs ''providerCache'' \<noteq> None \<longrightarrow>
        sendTransaction h address transaction ps st =
          (case deserializeTransactionResponseJson h resp of
             Inl e \<Rightarrow> Rejected e
           | Inr r \<Rightarrow> Resolved (Response r), st1)) \<and>
     (\<forall>s. resp = JStr s \<longrightarrow>
        sendTransaction h address transaction ps st = (Resolved (Plain (JStr s)), st1)) \<and>
     (\<forall>fs v. resp = JObj fs \<and> map_of fs ''id'' = Some v \<and> map_of fs ''providerCache'' = None \<and>
             truthy v \<longrightarrow>
        sendTransaction h address transaction ps st = (Resolved (Plain v), st1))"
  using assms by (auto simp: sendTransaction_def sendTransaction_return_def)

theorem sendTransaction_result_shape_witness:
  "fst (sendTransaction
          (example_host (answering (JObj [(''id'', JStr ''0x5f3a''), (''providerCache'', JObj [])])))
          ''0xabc'' (Some (JObj [])) None idle) =
     Resolved (Response (TransactionResponse
       (JObj [(''id'', JStr ''0x5f3a''), (''providerCache'', JObj [])]))) \<and>
   fst (sendTransaction (example_host (answering (JStr ''0x5f3a'')))
          ''0xabc'' (Some (JObj [])) None idle) = Resolved (Plain (JStr ''0x5f3a'')) \<and>
   fst (sendTransaction (example_host (answering (JObj [(''id'', JStr ''0x5f3a'')])))
          ''0xabc'' (Some (JObj [])) None idle) = Resolved (Plain (JStr ''0x5f3a''))"
proof -
  have p: "prepareTransactionRequest (example_host a) (Some (JObj [])) None =
             Resolved (Prepared (JObj []) None None None None)" for a
    by (simp add: prepareTransactionRequest_def example_host_def)
  have r: "\<exists>st1. client_request (example_host (answering v)) None ''sendTransaction''
             (SendTransaction ''0xabc'' (JSON_stringify (example_host (answering v)) (JObj []))
                None None None None True) idle = (Resolved v, st1)" for v
    by (simp add: run_defs example_defs)
  obtain s1 where r1: "client_request
        (example_host (answering (JObj [(''id'', JStr ''0x5f3a''), (''providerCache'', JObj [])])))
        None ''sendTransaction''
        (SendTransaction ''0xabc''
           (JSON_stringify
              (example_host (answering (JObj [(''id'', JStr ''0x5f3a''), (''providerCache'', JObj [])])))
              (JObj []))
           None None None None True) idle =
        (Resolved (JObj [(''id'', JStr ''0x5f3a''), (''providerCache'', JObj [])]), s1)"
    using r by blast
  obtain s2 where r2: "client_request (example_host (answering (JStr ''0x5f3a''))) None
        ''sendTransaction''
        (SendTransaction ''0xabc''
           (JSON_stringify (example_host (answering (JStr ''0x5f3a''))) (JObj []))
           None None None None True) idle =
        (Resolved (JStr ''0x5f3a''), s2)"
    using r by blast
  obtain s3 where r3: "client_request (example_host (answering (JObj [(''id'', JStr ''0x5f3a'')])))
        None ''sendTransaction''
        (SendTransaction ''0xabc''
           (JSON_stringify (example_host (answering (JObj [(''id'', JStr ''0x5f3a'')]))) (JObj []))
           None None None None True) idle =
        (Resolved (JObj [(''id'', JStr ''0x5f3a'')]), s3)"
    using r by blast
  show ?thesis
    using sendTransaction_result_shape [OF p r1] sendTransaction_result_shape [OF p r2]
      sendTransaction_result_shape [OF p r3]
    by (simp add: example_host_def)
qed

text \<open>
  The claim as it was stated returns the identifier of every object that carries only an
  \<^verbatim>\<open>id\<close>.  \<^verbatim>\<open>resp?.id || resp\<close> tests the truth value of the identifier: for the result
  \<^verbatim>\<open>{id: ""}\<close> the object itself is returned, not the identifier.
\<close>

theorem sendTransaction_empty_id_counterexample:
  "fst (sendTransaction (example_host (answering (JObj [(''id'', JStr [])]))) ''0xabc''
      (Some (JObj [])) None idle) \<noteq> Resolved (Plain (JStr [])) \<and>
   sendTransaction (example_host (answering (JObj [(''id'', JStr [])]))) ''0xabc''
      (Some (JObj [])) None idle =
   (Resolved (Plain (JObj [(''id'', JStr [])])),
    idle\<lparr>uuids := 1,
         posted := [(RequestMessage ''FuelContentScript'' ''Fuel Wallet''
                       \<lparr>id = 0, method = ''sendTransaction'',
                        params = SendTransaction ''0xabc'' ''{}'' None None None None True\<rparr>,
                     ''https://app.fuel.network'')]\<rparr>)"
  by (simp add: sendTransaction_def sendTransaction_return_def prepareTransactionRequest_def
      client_request_def client_send_def createRequestId_def postMessage_def client_await_def
      client_receive_def settle_def forget_def example_host_def answering_def idle_def Let_def)

subsection \<open>C4: the reserved lifecycle event\<close>



subsection \<open>C5: addAssets validates before it sends\<close>



subsection \<open>C6: signMessage validates before it sends\<close>

text \<open>
  C6, as amended.  \<^verbatim>\<open>signMessage\<close> fails with the validation error, and sends nothing,
  when the message is a string that is empty or only whitespace, or an object whose
  \<^verbatim>\<open>personalSign\<close> field is missing or is the empty string; otherwise it is exactly one RPC
  call \<^verbatim>\<open>signMessage\<close>, which on a page posts exactly one request message.
\<close>

theorem signMessage_validates_first:
  "signMessage h address message st =
     (if (\<exists>s. message = MessageString s \<and> (\<forall>c\<in>set s. isWhiteSpace c)) \<or>
         message = MessageObject None \<or>
         message = MessageObject (Some (BytesString []))
      then (Rejected (Error ''Message is required''), st)
      else client_request h None ''signMessage'' (SignMessage address message) st) \<and>
   (\<forall>w. window h = Some w \<longrightarrow>
      posted (snd (client_request h None ''signMessage'' (SignMessage address message) st)) =
        posted st @
          [(RequestMessage (CONTENT_SCRIPT_NAME h) (name st)
              \<lparr>id = uuids st, method = ''signMessage'',
               params = SignMessage address message\<rparr>, w)])"
proof -
  have "personalSign_falsy ps \<longleftrightarrow> ps = None \<or> ps = Some (BytesString [])" for ps
    by (cases ps rule: personalSign_falsy.cases) auto
  then show ?thesis
    by (cases message) (auto simp: signMessage_def trim_empty_iff client_request_posted)
qed

theorem signMessage_validates_first_witness:
  "signMessage (example_host silent) ''0xabc'' (MessageString [32, 9, 10]) idle =
     (Rejected (Error ''Message is required''), idle) \<and>
   signMessage (example_host silent) ''0xabc'' (MessageObject None) idle =
     (Rejected (Error ''Message is required''), idle) \<and>
   posted (snd (signMessage (example_host silent) ''0xabc'' (MessageString [104, 105]) idle)) =
     [(RequestMessage ''FuelContentScript'' ''Fuel Wallet''
         \<lparr>id = 0, method = ''signMessage'',
          params = SignMessage ''0xabc'' (MessageString [104, 105])\<rparr>,
       ''https://app.fuel.network'')]"
  using signMessage_validates_first [of "example_host silent" "''0xabc''" "MessageString [32, 9, 10]" idle]
    signMessage_validates_first [of "example_host silent" "''0xabc''" "MessageObject None" idle]
    signMessage_validates_first [of "example_host silent" "''0xabc''" "MessageString [104, 105]" idle]
  by (simp add: isWhiteSpace_def example_host_def idle_def)

text \<open>
  The claim as it was stated sends a request for every object that has the field.
  \<^verbatim>\<open>!message.personalSign\<close> tests the truth value of the field: the object
  \<^verbatim>\<open>{personalSign: ""}\<close> has the field and is refused, with nothing sent.
\<close>

theorem signMessage_empty_personalSign_counterexample:
  "signMessage (example_host silent) ''0xabc'' (MessageObject (Some (BytesString []))) idle =
     (Rejected (Error ''Message is required''), idle)"
  by (simp add: signMessage_def)

subsection \<open>C7: the presence announcement\<close>



subsection \<open>C8: addNetwork looks the chain up first\<close>

text \<open>
  C8.  \<^verbatim>\<open>addNetwork\<close> builds the provider and awaits \<^verbatim>\<open>getChain()\<close> before the RPC call.
  When the constructor throws or the lookup is rejected, \<^verbatim>\<open>addNetwork\<close> is rejected with
  that same error and the connector is unchanged: nothing is sent.  While the lookup does
  not settle nothing is sent either.  When the lookup succeeds, \<^verbatim>\<open>addNetwork\<close> is exactly
  one RPC call \<^verbatim>\<open>addNetwork\<close> with the URL of the provider and the name of the chain, and on
  a page exactly one request message is posted.
\<close>

theorem addNetwork_lookup_first:
  "(new_Provider h networkUrl = Inl e \<longrightarrow> addNetwork h networkUrl st = (Rejected e, st)) \<and>
   (new_Provider h networkUrl = Inr p \<and> getChain p = Rejected e \<longrightarrow>
      addNetwork h networkUrl st = (Rejected e, st)) \<and>
   (new_Provider h networkUrl = Inr p \<and> getChain p = Pending \<longrightarrow>
      addNetwork h networkUrl st = (Pending, st)) \<and>
   (new_Provider h networkUrl = Inr p \<and> getChain p = Resolved chain \<longrightarrow>
      addNetwork h networkUrl st =
        client_request h None ''addNetwork'' (AddNetwork (url p) (chain_name chain)) st \<and>
      (\<forall>w. window h = Some w \<longrightarrow>
         posted (snd (addNetwork h networkUrl st)) = posted st @
           [(RequestMessage (CONTENT_SCRIPT_NAME h) (name st)
               \<lparr>id = uuids st, method = ''addNetwork'',
                params = AddNetwork (url p) (chain_name chain)\<rparr>, w)]))"
  by (simp add: addNetwork_def client_request_posted)

theorem addNetwork_lookup_first_witness:
  "addNetwork (provider_host (\<lambda>u. Inl (TypeError ''Invalid URL''))) ''fuel'' idle =
     (Rejected (TypeError ''Invalid URL''), idle) \<and>
   addNetwork (provider_host (\<lambda>u. Inr \<lparr>url = u, getChain = Rejected (Error ''fetch failed'')\<rparr>))
       ''https://testnet.fuel.network/v1/graphql'' idle =
     (Rejected (Error ''fetch failed''), idle) \<and>
   addNetwork (provider_host (\<lambda>u. Inr \<lparr>url = u, getChain = Pending\<rparr>))
       ''https://testnet.fuel.network/v1/graphql'' idle =
     (Pending, idle) \<and>
   posted (snd (addNetwork (example_host silent) ''https://testnet.fuel.network/v1/graphql'' idle)) =
     [(RequestMessage ''FuelContentScript'' ''Fuel Wallet''
         \<lparr>id = 0, method = ''addNetwork'',
          params = AddNetwork ''https://testnet.fuel.network/v1/graphql'' ''Fuel Sepolia Testnet''\<rparr>,
       ''https://app.fuel.network'')]"
  using addNetwork_lookup_first [of "provider_host (\<lambda>u. Inl (TypeError ''Invalid URL''))"
      "''fuel''" "TypeError ''Invalid URL''" idle]
    addNetwork_lookup_first
      [of "provider_host (\<lambda>u. Inr \<lparr>url = u, getChain = Rejected (Error ''fetch failed'')\<rparr>)"
        "''https://testnet.fuel.network/v1/graphql''" "Error ''fetch failed''" idle
        "\<lparr>url = ''https://testnet.fuel.network/v1/graphql'',
          getChain = Rejected (Error ''fetch failed'')\<rparr>"]
    addNetwork_lookup_first
      [of "provider_host (\<lambda>u. Inr \<lparr>url = u, getChain = Pending\<rparr>)"
        "''https://testnet.fuel.network/v1/graphql''" _ idle
        "\<lparr>url = ''https://testnet.fuel.network/v1/graphql'', getChain = Pending\<rparr>"]
    addNetwork_lookup_first [of "example_host silent" "''https://testnet.fuel.network/v1/graphql''"
      _ idle
      "\<lparr>url = ''https://testnet.fuel.network/v1/graphql'',
        getChain = Resolved (ChainInfo ''Fuel Sepolia Testnet'')\<rparr>"
      "ChainInfo ''Fuel Sepolia Testnet''"]
  by (simp add: run_defs provider_host_def example_defs)

subsection \<open>C9: the identity of the connector\<close>

text \<open>
  C9.  The name of a connector is the one given to the constructor (\<^verbatim>\<open>Fuel Wallet\<close> by
  default); no operation changes it, so after any sequence of operations it is still the name
  given at construction.  It is the name stamped on every request that \<^verbatim>\<open>sendRequest\<close>
  posts, and the name that \<^verbatim>\<open>acceptMessage\<close> requires of an inbound message.
\<close>

theorem name_never_mutated:
  "name (constructor h nm) = (case nm of None \<Rightarrow> ''Fuel Wallet'' | Some n \<Rightarrow> n) \<and>
   name (perform h op st) = name st \<and>
   name (foldl (\<lambda>s op. perform h op s) (constructor h nm) ops) =
     (case nm of None \<Rightarrow> ''Fuel Wallet'' | Some n \<Rightarrow> n) \<and>
   (\<forall>request st'. sendRequest h (Some request) st = Inr st' \<longrightarrow>
      (\<exists>w. posted st' =
         posted st @ [(RequestMessage (CONTENT_SCRIPT_NAME h) (name st) request, w)])) \<and>
   (acceptMessage h st message \<longrightarrow> connectorName (data message) = name st)"
proof -
  have c: "name (constructor h nm) = (case nm of None \<Rightarrow> ''Fuel Wallet'' | Some n \<Rightarrow> n)"
    by (simp add: constructor_def setupConnector_fields setupListener_def split: option.splits)
  have s: "\<exists>w. posted st' =
         posted st @ [(RequestMessage (CONTENT_SCRIPT_NAME h) (name st) request, w)]"
    if "sendRequest h (Some request) st = Inr st'" for request st'
    using that by (auto simp: postMessage_def split: option.splits)
  show ?thesis
    using s by (simp add: c perform_name perform_all_name acceptMessage_def)
qed

theorem name_never_mutated_witness:
  "name (foldl (\<lambda>s op. perform (example_host refusing) op s)
           (constructor (example_host refusing) (Some ''Fuel Wallet Development''))
           [Call_isConnected, Call_connect,
            Run_onMessage \<lparr>origin = ''https://app.fuel.network'',
              data = EventMessage ''FuelConnectorScript'' ''Fuel Wallet Development''
                       [\<lparr>event = ''start'', params = []\<rparr>]\<rparr>,
            Timer_expires 0]) = ''Fuel Wallet Development'' \<and>
   name (perform (example_host refusing) Call_version idle) = ''Fuel Wallet'' \<and>
   sendRequest (example_host refusing)
       (Some \<lparr>id = 7, method = ''version'', params = Version ''0.0.0'' ''0.0.0''\<rparr>) idle =
     Inr (idle\<lparr>posted :=
        [(RequestMessage ''FuelContentScript'' ''Fuel Wallet''
            \<lparr>id = 7, method = ''version'', params = Version ''0.0.0'' ''0.0.0''\<rparr>,
          ''https://app.fuel.network'')]\<rparr>) \<and>
   acceptMessage (example_host refusing) idle
     \<lparr>origin = ''https://app.fuel.network'',
      data = OtherMessage ''FuelConnectorScript'' ''Fuel Wallet''\<rparr> \<and>
   connectorName (OtherMessage ''FuelConnectorScript'' ''Fuel Wallet'') = name idle"
proof -
  let ?h = "example_host refusing"
  let ?m = "\<lparr>origin = ''https://app.fuel.network'',
             data = OtherMessage ''FuelConnectorScript'' ''Fuel Wallet''\<rparr>"
  let ?r = "\<lparr>id = 7, method = ''version'', params = Version ''0.0.0'' ''0.0.0''\<rparr>"
  let ?st' = "idle\<lparr>posted :=
        [(RequestMessage ''FuelContentScript'' ''Fuel Wallet'' ?r, ''https://app.fuel.network'')]\<rparr>"
  note t = name_never_mutated [of ?h "Some ''Fuel Wallet Development''" Call_version idle
      "[Call_isConnected, Call_connect,
            Run_onMessage \<lparr>origin = ''https://app.fuel.network'',
              data = EventMessage ''FuelConnectorScript'' ''Fuel Wallet Development''
                       [\<lparr>event = ''start'', params = []\<rparr>]\<rparr>,
            Timer_expires 0]" ?m]
  have sent: "sendRequest ?h (Some ?r) idle = Inr ?st'"
    by (simp add: postMessage_def example_host_def idle_def)
  have acc: "acceptMessage ?h idle ?m"
    by (simp add: acceptMessage_def example_host_def idle_def)
  from t have a: "name (foldl (\<lambda>s op. perform ?h op s)
           (constructor ?h (Some ''Fuel Wallet Development''))
           [Call_isConnected, Call_connect,
            Run_onMessage \<lparr>origin = ''https://app.fuel.network'',
              data = EventMessage ''FuelConnectorScript'' ''Fuel Wallet Development''
                       [\<lparr>event = ''start'', params = []\<rparr>]\<rparr>,
            Timer_expires 0]) = ''Fuel Wallet Development''"
    by simp
  from t have b: "name (perform ?h Call_version idle) = name idle"
    by blast
  from t sent have "\<exists>w. posted ?st' =
      posted idle @ [(RequestMessage (CONTENT_SCRIPT_NAME ?h) (name idle) ?r, w)]"
    by blast
  then have c: "posted ?st' =
      [(RequestMessage ''FuelContentScript'' (name idle) ?r, ''https://app.fuel.network'')]"
    by (simp add: idle_def)
  from t acc have d: "connectorName (data ?m) = name idle"
    by blast
  from a b c d sent acc show ?thesis
    by (simp add: idle_def)
qed

subsection \<open>C10: addAsset is addAssets on a singleton\<close>

text \<open>
  C10.  For every asset, \<^verbatim>\<open>addAsset(asset)\<close> is \<^verbatim>\<open>addAssets([asset])\<close>: the same promise
  and the same connector afterwards.  It fails with the validation error, sending nothing,
  when the asset has no fuel variant, and is otherwise the one RPC call \<^verbatim>\<open>addAssets\<close> with
  the normalised data of the asset.
\<close>

theorem addAsset_is_addAssets_singleton:
  "addAsset h asset st = addAssets h [asset] st \<and>
   addAsset h asset st =
     (case assetData asset of
        Inl e \<Rightarrow> (Rejected e, st)
      | Inr d \<Rightarrow> client_request h None ''addAssets'' (AddAssets [d]) st)"
  by (simp add: addAsset_def addAssets_def split: sum.splits)

theorem addAsset_is_addAssets_singleton_witness:
  "addAsset (example_host silent) foreign_asset idle =
     (Rejected (Error ''Asset for Fuel Network not found!''), idle) \<and>
   addAsset (example_host silent) fuel_asset idle =
     addAssets (example_host silent) [fuel_asset] idle"
  using addAsset_is_addAssets_singleton [of "example_host silent" foreign_asset idle]
    addAsset_is_addAssets_singleton [of "example_host silent" fuel_asset idle]
  by (simp add: addAssets_def assetData_def foreign_asset_def)

end
